theory Spec2Isabelle
  imports Main
begin

section \<open>The data model of \<open>keyboard_remote\<close>\<close>

text \<open>
  The component \<open>homeassistant/components/keyboard_remote.py\<close> opens one evdev input
  device, grabs it, and republishes the key events of one kind on the event bus.
  Everything outside the module (the evdev device, the file system, the logger, the bus,
  the \<open>stopped\<close> flag that another thread sets) is the environment: what the module
  calls is recorded as a list of effects, and what the calls answer is an input.
\<close>

text \<open>An evdev \<open>InputDevice\<close> object, by identity.\<close>

type_synonym handle = nat

text \<open>An evdev \<open>InputEvent\<close>: the fields \<open>type\<close>, \<open>code\<close> and \<open>value\<close> the module reads.\<close>

record InputEvent =
  ev_type :: int
  ev_code :: int
  ev_value :: int

text \<open>
  The exceptions that can leave the module. \<open>OpenError\<close>, \<open>GrabError\<close> and
  \<open>ListdirError\<close> are the \<open>OSError\<close> (\<open>IOError\<close>) raised by \<open>InputDevice(path)\<close>,
  by \<open>dev.grab()\<close> and by \<open>os.listdir(path)\<close>; \<open>AttributeError\<close> is \<open>None.get\<close>;
  \<open>KeyError\<close> is raised by evdev's \<open>categorize(event)\<close> for a key event whose code
  its table \<open>ecodes.keys\<close> does not name.
\<close>

datatype error = AttributeError | ListdirError | OpenError | GrabError | KeyError

text \<open>The object \<open>KeyboardRemote\<close>, with the attributes \<open>__init__\<close> assigns.\<close>

record KeyboardRemote =
  dev :: handle
  key_value :: "int option"
  device_descriptor :: string

text \<open>The two closures \<open>setup\<close> registers on the bus, and the bus events they wait for.\<close>

datatype listener = start_keyboard_remote KeyboardRemote | stop_keyboard_remote KeyboardRemote

datatype bus_event = EVENT_HOMEASSISTANT_START | EVENT_HOMEASSISTANT_STOP

text \<open>Logging: the level, and either a format string with its arguments or \<open>categorize(event)\<close>.\<close>

datatype loglevel = DEBUG | ERROR

datatype logarg = ArgStr string | ArgList "string list" | ArgDev handle

datatype logmsg = Fmt string "logarg list" | Categorized InputEvent

text \<open>
  The calls the module makes on its collaborators, in the order it makes them.
  \<open>Close\<close> and \<open>Ungrab\<close> are \<open>InputDevice.close()\<close> and \<open>InputDevice.ungrab()\<close>:
  the two calls of evdev that give a device up. (A device can also be closed without a
  call of the module, when its last reference is dropped: see \<open>rebinding_drops\<close>.)
\<close>

datatype effect =
    Log loglevel logmsg
  | Sleep nat
  | Open string
  | Grab handle
  | ReadOne handle
  | Close handle
  | Ungrab handle
  | Fire string "string \<rightharpoonup> int"
  | ListenOnce bus_event listener

section \<open>Constants of the module\<close>

definition DOMAIN :: string where
  "DOMAIN = ''keyboard_remote''"

definition KEYBOARD_REMOTE_COMMAND_RECEIVED :: string where
  "KEYBOARD_REMOTE_COMMAND_RECEIVED = ''keyboard_remote_command_received''"

definition KEY_CODE :: string where
  "KEY_CODE = ''key_code''"

definition KEY_VALUE :: "string \<rightharpoonup> int" where
  "KEY_VALUE = [''key_up'' \<mapsto> 0, ''key_down'' \<mapsto> 1, ''key_hold'' \<mapsto> 2]"

text \<open>The constant \<open>TYPE\<close> of the module (\<open>TYPE\<close> alone is reserved in HOL's syntax).\<close>

definition TYPE_conf :: string where
  "TYPE_conf = ''type''"

definition DEVICE_DESCRIPTOR :: string where
  "DEVICE_DESCRIPTOR = ''device_descriptor''"

text \<open>\<open>evdev.ecodes.EV_KEY\<close>, the kernel's event type of key events (not part of the module).\<close>

definition EV_KEY :: int where
  "EV_KEY = 1"

section \<open>The event filter\<close>

text \<open>
  The module compares with \<open>is\<close>, object identity. CPython keeps one object for each
  integer from -5 to 256, so two integers in that range are identical exactly when they
  are equal; an integer outside it, made by the evdev extension for the event, is never
  the object held in \<open>self.key_value\<close> or \<open>ecodes.EV_KEY\<close>. \<open>None\<close> is identical
  to no integer.
\<close>

definition py_is :: "int \<Rightarrow> int option \<Rightarrow> bool" where
  "py_is a b = (case b of None \<Rightarrow> False | Some v \<Rightarrow> a = v \<and> - 5 \<le> a \<and> a \<le> 256)"

text \<open>Line 157: \<open>event.type is ecodes.EV_KEY and event.value is self.key_value\<close>.\<close>

definition accepts :: "KeyboardRemote \<Rightarrow> InputEvent \<Rightarrow> bool" where
  "accepts self event = (py_is (ev_type event) (Some EV_KEY) \<and> py_is (ev_value event) (key_value self))"

section \<open>One iteration of the loop in \<open>run\<close>\<close>

text \<open>What \<open>self.dev.read_one()\<close> answers: an event, \<open>None\<close>, or it raises \<open>IOError\<close>.\<close>

datatype read_result = ReadEvent InputEvent | ReadNone | ReadIOError

text \<open>
  What the environment answers during one iteration: \<open>self.stopped.isSet()\<close>,
  \<open>os.path.exists(self.device_descriptor)\<close>, \<open>InputDevice(self.device_descriptor)\<close>
  (\<open>None\<close> when it raises), \<open>self.dev.grab()\<close> (\<open>False\<close> when it raises),
  \<open>self.dev.read_one()\<close>, and evdev's \<open>categorize(event)\<close> for the event read
  (\<open>False\<close> when it raises \<open>KeyError\<close>: the table \<open>ecodes.keys\<close> of evdev, which
  is not part of the module, does not name the code of the event). An answer to a call
  the iteration does not make is not used.
\<close>

record iter_env =
  is_set :: bool
  path_exists :: bool
  open_result :: "handle option"
  grab_result :: bool
  read_one_result :: read_result
  categorize_result :: bool

text \<open>The state of the loop: the object and the local \<open>keyboard_connected\<close>.\<close>

record run_state =
  kr :: KeyboardRemote
  keyboard_connected :: bool

definition set_dev :: "handle \<Rightarrow> run_state \<Rightarrow> run_state" where
  "set_dev h s = s\<lparr>kr := (kr s)\<lparr>dev := h\<rparr>\<rparr>"

text \<open>
  Lines 136-142, the branch "keyboard reconnected": log, sleep one second, open, grab,
  then \<open>keyboard_connected = True\<close>. Neither the open nor the grab stands in a
  \<open>try\<close>: an exception of either leaves the loop, with \<open>self.dev\<close> already
  replaced when it is the grab that failed. The effects are the calls of the module;
  what the assignment of line 140 does to the device held before is \<open>rebinding_drops\<close>
  below.
\<close>

definition reconnect :: "run_state \<Rightarrow> iter_env \<Rightarrow> effect list \<times> run_state \<times> error option" where
  "reconnect s e =
     (let d = device_descriptor (kr s);
          fx = [Log DEBUG (Fmt ''KeyboardRemote: keyboard re-connected, %s'' [ArgStr d]),
                Sleep 1, Open d]
      in case open_result e of
           None \<Rightarrow> (fx, s, Some OpenError)
         | Some h \<Rightarrow>
             if grab_result e
             then (fx @ [Grab h], (set_dev h s)\<lparr>keyboard_connected := True\<rparr>, None)
             else (fx @ [Grab h], set_dev h s, Some GrabError))"

text \<open>
  Lines 144-162: read one event; \<open>IOError\<close> is caught and clears
  \<open>keyboard_connected\<close>; no event, or an event the filter rejects, does nothing. For
  an accepted event, line 158 evaluates \<open>categorize(event)\<close> as the argument of the
  debug log, outside any \<open>try\<close>: when it raises, nothing is logged or fired and the
  \<open>KeyError\<close> leaves the loop; otherwise the event is logged and fired on the bus.
\<close>

definition read_and_fire :: "run_state \<Rightarrow> iter_env \<Rightarrow> effect list \<times> run_state \<times> error option" where
  "read_and_fire s e =
     (case read_one_result e of
        ReadIOError \<Rightarrow>
          ([ReadOne (dev (kr s)),
            Log DEBUG (Fmt ''KeyboardRemote: keyboard disconnected, %s''
              [ArgStr (device_descriptor (kr s))])],
           s\<lparr>keyboard_connected := False\<rparr>, None)
      | ReadNone \<Rightarrow> ([ReadOne (dev (kr s))], s, None)
      | ReadEvent event \<Rightarrow>
          if accepts (kr s) event
          then (if categorize_result e
                then ([ReadOne (dev (kr s)), Log DEBUG (Categorized event),
                       Fire KEYBOARD_REMOTE_COMMAND_RECEIVED [KEY_CODE \<mapsto> ev_code event]],
                      s, None)
                else ([ReadOne (dev (kr s))], s, Some KeyError))
          else ([ReadOne (dev (kr s))], s, None))"

text \<open>The body of the \<open>while\<close>, lines 128-162. The third component is the exception that left it.\<close>

definition body :: "run_state \<Rightarrow> iter_env \<Rightarrow> effect list \<times> run_state \<times> error option" where
  "body s e =
     (let keyboard_still_connected = path_exists e in
      if \<not> keyboard_connected s \<and> \<not> keyboard_still_connected then ([], s, None)
      else if \<not> keyboard_connected s \<and> keyboard_still_connected then
        (case reconnect s e of
           (fx, s1, Some err) \<Rightarrow> (fx, s1, Some err)
         | (fx, s1, None) \<Rightarrow>
             (case read_and_fire s1 e of (fx2, s2, r) \<Rightarrow> (fx @ fx2, s2, r)))
      else read_and_fire s e)"

section \<open>The loop and \<open>run\<close>\<close>

text \<open>
  How an execution ended: the loop saw \<open>stopped\<close> set and \<open>run\<close> returned; an
  exception left \<open>run\<close>; or the loop is still iterating when the environment's script
  ends (the loop has no other exit, so it can run forever).
\<close>

datatype outcome = Returned | Raised error | Running

text \<open>
  \<open>while not self.stopped.isSet(): ...\<close> run against a script with one entry for each
  test of the loop condition.
\<close>

fun run_loop :: "run_state \<Rightarrow> iter_env list \<Rightarrow> effect list \<times> run_state \<times> outcome" where
  "run_loop s [] = ([], s, Running)"
| "run_loop s (e # es) =
     (if is_set e then ([], s, Returned)
      else (case body s e of
              (fx, s1, Some err) \<Rightarrow> (fx, s1, Raised err)
            | (fx, s1, None) \<Rightarrow>
                (case run_loop s1 es of (fx2, s2, out) \<Rightarrow> (fx @ fx2, s2, out))))"

text \<open>
  \<open>run\<close>, lines 118-162: log, grab the device opened by \<open>__init__\<close> (\<open>grab_ok\<close> is
  whether that grab succeeds), set \<open>keyboard_connected = True\<close>, loop. When the grab
  raises, the local \<open>keyboard_connected\<close> is not assigned yet: the state shows it unset.
\<close>

definition run :: "KeyboardRemote \<Rightarrow> bool \<Rightarrow> iter_env list \<Rightarrow> effect list \<times> run_state \<times> outcome" where
  "run self grab_ok es =
     (let fx = [Log DEBUG (Fmt ''KeyboardRemote interface started for %s'' [ArgDev (dev self)]),
                Grab (dev self)]
      in if \<not> grab_ok then (fx, \<lparr>kr = self, keyboard_connected = False\<rparr>, Raised GrabError)
         else (case run_loop \<lparr>kr = self, keyboard_connected = True\<rparr> es of
                 (fx2, s2, out) \<Rightarrow> (fx @ fx2, s2, out)))"

text \<open>
  The device that an iteration lets go of. The module holds its device only in
  \<open>self.dev\<close>. When a disconnected loop finds the path again and the open succeeds,
  line 140 rebinds \<open>self.dev\<close>: the \<open>InputDevice\<close> held before has no reference
  left, and CPython runs its destructor at once, in which evdev closes the device. No
  other statement of the loop drops a device.
\<close>

definition rebinding_drops :: "run_state \<Rightarrow> iter_env \<Rightarrow> handle list" where
  "rebinding_drops s e =
     (if \<not> keyboard_connected s \<and> path_exists e
      then (case open_result e of None \<Rightarrow> [] | Some h \<Rightarrow> [dev (kr s)])
      else [])"

text \<open>The devices closed in this way in the course of the loop, and of \<open>run\<close>.\<close>

fun closed_during :: "run_state \<Rightarrow> iter_env list \<Rightarrow> handle list" where
  "closed_during s [] = []"
| "closed_during s (e # es) =
     (if is_set e then []
      else rebinding_drops s e @
           (case body s e of
              (fx, s1, Some err) \<Rightarrow> []
            | (fx, s1, None) \<Rightarrow> closed_during s1 es))"

definition run_closed :: "KeyboardRemote \<Rightarrow> bool \<Rightarrow> iter_env list \<Rightarrow> handle list" where
  "run_closed self grab_ok es =
     (if \<not> grab_ok then [] else closed_during \<lparr>kr = self, keyboard_connected = True\<rparr> es)"

text \<open>The notifications among the effects, and the calls that give a device up.\<close>

fun fired :: "effect list \<Rightarrow> (string \<times> (string \<rightharpoonup> int)) list" where
  "fired [] = []"
| "fired (Fire n p # fx) = (n, p) # fired fx"
| "fired (_ # fx) = fired fx"

fun releases :: "effect list \<Rightarrow> handle list" where
  "releases [] = []"
| "releases (Close h # fx) = h # releases fx"
| "releases (Ungrab h # fx) = h # releases fx"
| "releases (_ # fx) = releases fx"

fun opens :: "effect list \<Rightarrow> string list" where
  "opens [] = []"
| "opens (Open d # fx) = d # opens fx"
| "opens (_ # fx) = opens fx"

fun grabs :: "effect list \<Rightarrow> handle list" where
  "grabs [] = []"
| "grabs (Grab h # fx) = h # grabs fx"
| "grabs (_ # fx) = grabs fx"

fun listeners :: "effect list \<Rightarrow> (bus_event \<times> listener) list" where
  "listeners [] = []"
| "listeners (ListenOnce ev l # fx) = (ev, l) # listeners fx"
| "listeners (_ # fx) = listeners fx"

fun error_logs :: "effect list \<Rightarrow> logmsg list" where
  "error_logs [] = []"
| "error_logs (Log ERROR m # fx) = m # error_logs fx"
| "error_logs (_ # fx) = error_logs fx"

section \<open>\<open>__init__\<close> and \<open>setup\<close>\<close>

text \<open>
  What the environment answers to \<open>setup\<close>: \<open>os.path.exists\<close>, \<open>os.listdir\<close>
  (\<open>None\<close> when it raises, as it does for a directory that is not there) and
  \<open>InputDevice(path)\<close> (\<open>None\<close> when it raises).
\<close>

record setup_env =
  fs_exists :: "string \<Rightarrow> bool"
  fs_listdir :: "string \<Rightarrow> string list option"
  dev_open :: "string \<Rightarrow> handle option"

text \<open>The values \<open>setup\<close> returns: \<open>True\<close>, or \<open>None\<close> from the bare \<open>return\<close>.\<close>

datatype pyval = PyNone | PyBool bool

fun truthy :: "pyval \<Rightarrow> bool" where
  "truthy PyNone = False"
| "truthy (PyBool b) = b"

text \<open>
  \<open>KeyboardRemote.__init__\<close>, lines 107-116: it opens the device and stores the
  arguments. It does not grab.
\<close>

definition KeyboardRemote_init ::
  "setup_env \<Rightarrow> string \<Rightarrow> int option \<Rightarrow> effect list \<times> (error + KeyboardRemote)" where
  "KeyboardRemote_init env descriptor kv =
     ([Open descriptor],
      case dev_open env descriptor of
        None \<Rightarrow> Inl OpenError
      | Some h \<Rightarrow> Inr \<lparr>dev = h, key_value = kv, device_descriptor = descriptor\<rparr>)"

definition id_folder :: string where
  "id_folder = ''/dev/input/by-id/''"

text \<open>
  Lines 70-76, the branch of a missing descriptor: list the folder, log one error with
  the listing, \<open>return\<close>. The arguments of \<open>_LOGGER.error\<close> are evaluated before the
  call, so an exception of \<open>os.listdir\<close> leaves \<open>setup\<close> before anything is logged.
\<close>

definition report_missing :: "setup_env \<Rightarrow> effect list \<times> (error + pyval)" where
  "report_missing env =
     (case fs_listdir env id_folder of
        None \<Rightarrow> ([], Inl ListdirError)
      | Some names \<Rightarrow>
          ([Log ERROR
              (Fmt (''A device_descriptor must be defined. Possible descriptors are %s:''
                      @ [CHR 0x0A] @ ''%s'')
                 [ArgStr id_folder, ArgList names])],
           Inr PyNone))"

text \<open>
  \<open>setup\<close>, lines 65-101 (\<open>setup\<close> alone is a keyword of the prover, hence the longer
  name). The configuration is a dictionary of dictionaries of strings; \<open>.get\<close> on the
  \<open>None\<close> of an absent domain raises. Line 69 is
  \<open>not device_descriptor or not os.path.exists(device_descriptor)\<close>: the descriptor is
  \<open>None\<close>, or empty, or names nothing.
\<close>

definition setup_component ::
  "setup_env \<Rightarrow> (string \<rightharpoonup> (string \<rightharpoonup> string)) \<Rightarrow> effect list \<times> (error + pyval)" where
  "setup_component env config =
     (case config DOMAIN of
        None \<Rightarrow> ([], Inl AttributeError)
      | Some conf \<Rightarrow>
          (case conf DEVICE_DESCRIPTOR of
             None \<Rightarrow> report_missing env
           | Some descriptor \<Rightarrow>
               if descriptor = [] \<or> \<not> fs_exists env descriptor then report_missing env
               else
                 (let kv = KEY_VALUE (case conf TYPE_conf of None \<Rightarrow> ''key_up'' | Some t \<Rightarrow> t)
                  in case KeyboardRemote_init env descriptor kv of
                       (fx, Inl err) \<Rightarrow> (fx, Inl err)
                     | (fx, Inr keyboard_remote) \<Rightarrow>
                         (fx @ [ListenOnce EVENT_HOMEASSISTANT_START
                                  (start_keyboard_remote keyboard_remote),
                                ListenOnce EVENT_HOMEASSISTANT_STOP
                                  (stop_keyboard_remote keyboard_remote)],
                          Inr (PyBool True)))))"

section \<open>Notions used by the properties\<close>

text \<open>
  The iteration gets as far as \<open>self.dev.read_one()\<close>: the keyboard is connected, or it
  is back and the reopen and the grab both succeed.
\<close>

definition reaches_read :: "run_state \<Rightarrow> iter_env \<Rightarrow> bool" where
  "reaches_read s e =
     (keyboard_connected s \<or> (path_exists e \<and> open_result e \<noteq> None \<and> grab_result e))"

text \<open>The same answers of the environment, but with no event waiting at the read.\<close>

definition no_event :: "iter_env \<Rightarrow> iter_env" where
  "no_event e = e\<lparr>read_one_result := ReadNone\<rparr>"

text \<open>The condition of line 69 on what \<open>config.get(DEVICE_DESCRIPTOR)\<close> gave.\<close>

definition descriptor_missing :: "setup_env \<Rightarrow> string option \<Rightarrow> bool" where
  "descriptor_missing env d =
     (case d of None \<Rightarrow> True | Some p \<Rightarrow> p = [] \<or> \<not> fs_exists env p)"

text \<open>
  The object \<open>setup\<close> makes for the configuration in the docstring of the module
  (descriptor \<open>/dev/input/by-id/foo\<close>, type \<open>key_up\<close>), holding the device \<open>h\<close>.
\<close>

definition foo_remote :: "handle \<Rightarrow> KeyboardRemote" where
  "foo_remote h = \<lparr>dev = h, key_value = Some 0, device_descriptor = ''/dev/input/by-id/foo''\<rparr>"

definition foo_config :: "string \<rightharpoonup> (string \<rightharpoonup> string)" where
  "foo_config =
     [''keyboard_remote'' \<mapsto>
        [''device_descriptor'' \<mapsto> ''/dev/input/by-id/foo'', ''type'' \<mapsto> ''key_up'']]"

text \<open>
  A machine for \<open>setup\<close>: the paths that exist; the listing of \<open>/dev/input/by-id/\<close>
  (\<open>None\<close> when the folder is not there, and \<open>os.listdir\<close> raises; any other folder
  is not there); and the device that opening an existing path gives (\<open>None\<close> when the
  open is refused).
\<close>

definition machine :: "string list \<Rightarrow> string list option \<Rightarrow> handle option \<Rightarrow> setup_env" where
  "machine paths listing h =
     \<lparr>fs_exists = (\<lambda>p. p \<in> set paths),
      fs_listdir = (\<lambda>p. if p = id_folder then listing else None),
      dev_open = (\<lambda>p. if p \<in> set paths then h else None)\<rparr>"

section \<open>Auxiliary facts\<close>

lemma fired_append: "fired (xs @ ys) = fired xs @ fired ys"
  by (induction xs rule: fired.induct) auto

lemma releases_append: "releases (xs @ ys) = releases xs @ releases ys"
  by (induction xs rule: releases.induct) auto

lemma opens_append: "opens (xs @ ys) = opens xs @ opens ys"
  by (induction xs rule: opens.induct) auto

lemma accepts_iff:
  "m \<in> {''key_up'', ''key_down'', ''key_hold''} \<Longrightarrow> key_value self = KEY_VALUE m \<Longrightarrow>
   accepts self event = (ev_type event = EV_KEY \<and> KEY_VALUE m = Some (ev_value event))"
  by (auto simp: accepts_def py_is_def KEY_VALUE_def EV_KEY_def)

lemma read_and_fire_no_event:
  "read_and_fire s (no_event e) = ([ReadOne (dev (kr s))], s, None)"
  by (simp add: read_and_fire_def no_event_def)

lemma read_and_fire_event:
  "read_one_result e = ReadEvent event \<Longrightarrow> categorize_result e \<Longrightarrow>
   read_and_fire s e =
     ([ReadOne (dev (kr s))] @
        (if accepts (kr s) event
         then [Log DEBUG (Categorized event),
               Fire KEYBOARD_REMOTE_COMMAND_RECEIVED [KEY_CODE \<mapsto> ev_code event]]
         else []),
      s, None)"
  by (simp add: read_and_fire_def)

lemma reconnect_no_event: "reconnect s (no_event e) = reconnect s e"
  by (simp add: reconnect_def no_event_def Let_def split: option.splits)

lemma reconnect_ok:
  "open_result e = Some h \<Longrightarrow> grab_result e \<Longrightarrow>
   reconnect s e =
     ([Log DEBUG (Fmt ''KeyboardRemote: keyboard re-connected, %s''
                    [ArgStr (device_descriptor (kr s))]),
       Sleep 1, Open (device_descriptor (kr s)), Grab h],
      (set_dev h s)\<lparr>keyboard_connected := True\<rparr>, None)"
  by (simp add: reconnect_def Let_def)

text \<open>
  An iteration that reads an event which evdev can categorize: what the iteration does
  with no event waiting, then a debug log and a notification exactly for the key events
  of the configured value.
\<close>

lemma body_event:
  assumes "reaches_read s e" "read_one_result e = ReadEvent event" "categorize_result e"
      and "m \<in> {''key_up'', ''key_down'', ''key_hold''}" "key_value (kr s) = KEY_VALUE m"
  shows "body s e =
     (case body s (no_event e) of
        (fx, s1, r) \<Rightarrow>
          (fx @ (if ev_type event = EV_KEY \<and> KEY_VALUE m = Some (ev_value event)
                 then [Log DEBUG (Categorized event),
                       Fire KEYBOARD_REMOTE_COMMAND_RECEIVED [KEY_CODE \<mapsto> ev_code event]]
                 else []), s1, r))"
proof (cases "keyboard_connected s")
  case True
  have kc: "keyboard_connected s = keyboard_connected s" by simp
  show ?thesis
    using True read_and_fire_event[OF assms(2,3), of s] accepts_iff[OF assms(4,5), of event]
      read_and_fire_no_event[of s e]
    by (simp add: body_def)
next
  case False
  with assms(1) obtain h where h: "path_exists e" "open_result e = Some h" "grab_result e"
    by (auto simp: reaches_read_def)
  let ?s1 = "(set_dev h s)\<lparr>keyboard_connected := True\<rparr>"
  note r = reconnect_ok[OF h(2,3), of s]
  have kv: "key_value (kr ?s1) = KEY_VALUE m" using assms(5) by (simp add: set_dev_def)
  have pe: "path_exists (no_event e)" using h by (simp add: no_event_def)
  show ?thesis
    using False h pe r read_and_fire_event[OF assms(2,3), of ?s1]
      accepts_iff[OF assms(4) kv, of event] read_and_fire_no_event[of ?s1 e]
    by (simp add: body_def reconnect_no_event)
qed

lemma body_no_event_fired: "fired (fst (body s (no_event e))) = []"
  by (auto simp: body_def reconnect_def read_and_fire_def no_event_def Let_def
      split: prod.splits option.splits if_splits)

text \<open>
  A connected loop reads an event that the filter accepts and evdev cannot categorize:
  the \<open>KeyError\<close> leaves the loop after the read, and nothing is logged or fired.
\<close>

lemma uncategorized_event_raises:
  assumes "keyboard_connected s" "read_one_result e = ReadEvent event" "accepts (kr s) event"
      and "\<not> categorize_result e" "\<not> is_set e"
  shows "body s e = ([ReadOne (dev (kr s))], s, Some KeyError)"
    and "run_loop s (e # es) = ([ReadOne (dev (kr s))], s, Raised KeyError)"
  using assms by (simp_all add: body_def read_and_fire_def)

lemma grabs_append: "grabs (xs @ ys) = grabs xs @ grabs ys"
  by (induction xs rule: grabs.induct) auto

lemma read_and_fire_opens: "opens (fst (read_and_fire s e)) = []"
  by (simp add: read_and_fire_def split: read_result.splits)

lemma read_and_fire_grabs: "grabs (fst (read_and_fire s e)) = []"
  by (simp add: read_and_fire_def split: read_result.splits)

lemma read_and_fire_releases: "releases (fst (read_and_fire s e)) = []"
  by (simp add: read_and_fire_def split: read_result.splits)

lemma read_and_fire_length: "length (fst (read_and_fire s e)) \<le> 3"
  by (simp add: read_and_fire_def split: read_result.splits)

lemma reconnect_releases: "releases (fst (reconnect s e)) = []"
  by (simp add: reconnect_def Let_def split: option.splits)

text \<open>No iteration closes or ungrabs a device, and so no execution of the loop does.\<close>

lemma body_releases: "releases (fst (body s e)) = []"
proof -
  have "releases (fst (read_and_fire s1 e)) = []" for s1 by (rule read_and_fire_releases)
  then have r: "read_and_fire s1 e = (fx, s2, x) \<Longrightarrow> releases fx = []" for s1 fx s2 x
    by (metis fst_conv)
  have c: "reconnect s e = (fx, s1, x) \<Longrightarrow> releases fx = []" for fx s1 x
    using reconnect_releases[of s e] by simp
  show ?thesis
    by (auto simp: body_def Let_def releases_append read_and_fire_releases r c
        split: prod.splits option.splits)
qed

lemma run_loop_releases: "releases (fst (run_loop s es)) = []"
proof (induction es arbitrary: s)
  case Nil
  then show ?case by simp
next
  case (Cons e es)
  obtain fx s1 r where b: "body s e = (fx, s1, r)" by (cases "body s e") auto
  have fx: "releases fx = []" using body_releases[of s e] b by simp
  show ?case
  proof (cases r)
    case None
    obtain fx2 s2 out where l: "run_loop s1 es = (fx2, s2, out)"
      by (cases "run_loop s1 es") auto
    have "releases fx2 = []" using Cons.IH[of s1] l by simp
    then show ?thesis using b None l fx by (simp add: releases_append)
  next
    case (Some err)
    then show ?thesis using b fx by simp
  qed
qed

text \<open>An iteration makes at most seven calls: four to reconnect, three to read, log and fire.\<close>

lemma body_length: "length (fst (body s e)) \<le> 7"
  using read_and_fire_length[of s e]
        read_and_fire_length[of "(set_dev (the (open_result e)) s)\<lparr>keyboard_connected := True\<rparr>" e]
  by (auto simp: body_def reconnect_def Let_def split: prod.splits option.splits if_splits)

text \<open>
  The devices a loop has held, in order: the one it starts with, then the one of each
  successful reopen. Each appears in the effects as the device grabbed. The last of them
  is the device held in the end; every one before it was dropped by the rebinding that
  brought the next.
\<close>

lemma butlast_append_last:
  "A \<noteq> [] \<Longrightarrow> butlast (A @ G) = butlast A @ butlast (last A # G)"
  by (cases G) (simp_all add: butlast_append)

lemma last_append_last: "A \<noteq> [] \<Longrightarrow> last (A @ G) = last (last A # G)"
  by (cases G) simp_all

lemma read_and_fire_dev:
  "read_and_fire s e = (fx, s1, r) \<Longrightarrow> dev (kr s1) = dev (kr s) \<and> grabs fx = []"
  by (auto simp: read_and_fire_def split: read_result.splits if_splits)

lemma body_held:
  assumes "body s e = (fx, s1, r)"
  shows "dev (kr s1) = last (dev (kr s) # grabs fx)
       \<and> rebinding_drops s e = butlast (dev (kr s) # grabs fx)"
proof (cases "keyboard_connected s")
  case True
  then show ?thesis
    using assms read_and_fire_dev[of s e fx s1 r] by (simp add: body_def rebinding_drops_def)
next
  case False
  show ?thesis
  proof (cases "path_exists e")
    case no: False
    then show ?thesis using False assms by (auto simp: body_def rebinding_drops_def)
  next
    case yes: True
    show ?thesis
    proof (cases "open_result e")
      case None
      then show ?thesis
        using False yes assms by (auto simp: body_def rebinding_drops_def reconnect_def Let_def)
    next
      case (Some h)
      show ?thesis
      proof (cases "grab_result e")
        case g: False
        then show ?thesis
          using False yes Some assms
          by (auto simp: body_def rebinding_drops_def reconnect_def Let_def set_dev_def)
      next
        case g: True
        let ?s1 = "(set_dev h s)\<lparr>keyboard_connected := True\<rparr>"
        obtain fx2 s2 r2 where rf: "read_and_fire ?s1 e = (fx2, s2, r2)"
          by (cases "read_and_fire ?s1 e") auto
        have d: "dev (kr s2) = h" "grabs fx2 = []"
          using read_and_fire_dev[OF rf] by (simp_all add: set_dev_def)
        show ?thesis
          using False yes Some g assms rf d reconnect_ok[OF Some g, of s]
          by (auto simp: body_def rebinding_drops_def grabs_append)
      qed
    qed
  qed
qed

lemma run_loop_held:
  "run_loop s es = (fx, s1, out) \<Longrightarrow>
   dev (kr s1) = last (dev (kr s) # grabs fx)
   \<and> closed_during s es = butlast (dev (kr s) # grabs fx)"
proof (induction es arbitrary: s fx s1 out)
  case Nil
  then show ?case by simp
next
  case (Cons e es)
  show ?case
  proof (cases "is_set e")
    case True
    then show ?thesis using Cons.prems by simp
  next
    case False
    obtain fxb sb r where b: "body s e = (fxb, sb, r)" by (cases "body s e") auto
    note h = body_held[OF b]
    show ?thesis
    proof (cases r)
      case (Some err)
      then show ?thesis using False b h Cons.prems by auto
    next
      case None
      obtain fx2 s2 out2 where l: "run_loop sb es = (fx2, s2, out2)"
        by (cases "run_loop sb es") auto
      note ih = Cons.IH[OF l]
      have fx: "fx = fxb @ fx2" and s1: "s1 = s2"
        using False b None l Cons.prems by simp_all
      have ne: "dev (kr s) # grabs fxb \<noteq> []" by simp
      have "dev (kr s) # grabs fx = (dev (kr s) # grabs fxb) @ grabs fx2"
        by (simp add: fx grabs_append)
      then have "last (dev (kr s) # grabs fx) = last (dev (kr sb) # grabs fx2)"
        and "butlast (dev (kr s) # grabs fx) =
             butlast (dev (kr s) # grabs fxb) @ butlast (dev (kr sb) # grabs fx2)"
        using last_append_last[OF ne, of "grabs fx2"] butlast_append_last[OF ne, of "grabs fx2"] h
        by simp_all
      then show ?thesis using False b None l ih h s1 by simp
    qed
  qed
qed

lemma run_held:
  "dev (kr (fst (snd (run self grab_ok es)))) = last (grabs (fst (run self grab_ok es)))
   \<and> run_closed self grab_ok es = butlast (grabs (fst (run self grab_ok es)))"
proof (cases grab_ok)
  case False
  then show ?thesis by (simp add: run_def run_closed_def)
next
  case True
  obtain fx s1 out where l: "run_loop \<lparr>kr = self, keyboard_connected = True\<rparr> es = (fx, s1, out)"
    by (cases "run_loop \<lparr>kr = self, keyboard_connected = True\<rparr> es") auto
  show ?thesis using True l run_loop_held[OF l] by (simp add: run_def run_closed_def)
qed

lemma last_notin_butlast: "distinct xs \<Longrightarrow> xs \<noteq> [] \<Longrightarrow> last xs \<notin> set (butlast xs)"
  by (metis append_butlast_last_id disjoint_insert(1) distinct_append list.simps(15))

text \<open>
  A script in which \<open>stopped\<close> is set at some test of the loop condition: the loop does
  what it does on the script before that test, and returns there if it was still running.
\<close>

lemma run_loop_stop_here:
  "is_set e \<Longrightarrow>
   run_loop s (pre @ e # post) =
     (case run_loop s pre of (fx, s1, out) \<Rightarrow> (fx, s1, if out = Running then Returned else out))"
proof (induction pre arbitrary: s)
  case Nil
  then show ?case by simp
next
  case (Cons a pre)
  show ?case
  proof (cases "is_set a")
    case True
    then show ?thesis by simp
  next
    case False
    obtain fx s1 r where b: "body s a = (fx, s1, r)" by (cases "body s a") auto
    show ?thesis
    proof (cases r)
      case None
      obtain fx2 s2 out where l: "run_loop s1 pre = (fx2, s2, out)"
        by (cases "run_loop s1 pre") auto
      show ?thesis using False b None l Cons.IH[OF Cons.prems, of s1] by simp
    next
      case (Some err)
      then show ?thesis using False b by simp
    qed
  qed
qed

text \<open>\<open>setup\<close> with a missing descriptor, and with one that is there.\<close>

lemma setup_component_missing:
  "config DOMAIN = Some conf \<Longrightarrow> descriptor_missing env (conf DEVICE_DESCRIPTOR) \<Longrightarrow>
   setup_component env config = report_missing env"
  by (auto simp: setup_component_def descriptor_missing_def split: option.splits)

lemma setup_component_present:
  "config DOMAIN = Some conf \<Longrightarrow> conf DEVICE_DESCRIPTOR = Some d \<Longrightarrow>
   \<not> descriptor_missing env (Some d) \<Longrightarrow>
   setup_component env config =
     (case dev_open env d of
        None \<Rightarrow> ([Open d], Inl OpenError)
      | Some h \<Rightarrow>
          ([Open d,
            ListenOnce EVENT_HOMEASSISTANT_START
              (start_keyboard_remote
                 \<lparr>dev = h,
                  key_value = KEY_VALUE (case conf TYPE_conf of None \<Rightarrow> ''key_up'' | Some t \<Rightarrow> t),
                  device_descriptor = d\<rparr>),
            ListenOnce EVENT_HOMEASSISTANT_STOP
              (stop_keyboard_remote
                 \<lparr>dev = h,
                  key_value = KEY_VALUE (case conf TYPE_conf of None \<Rightarrow> ''key_up'' | Some t \<Rightarrow> t),
                  device_descriptor = d\<rparr>)],
           Inr (PyBool True)))"
  by (auto simp: setup_component_def descriptor_missing_def KeyboardRemote_init_def Let_def
      split: option.splits)

lemma setup_component_grabs: "grabs (fst (setup_component env config)) = []"
  by (auto simp: setup_component_def report_missing_def KeyboardRemote_init_def Let_def
      split: option.splits)

text \<open>
  With a missing descriptor and a folder \<open>/dev/input/by-id/\<close> that can be listed,
  \<open>setup\<close> logs one error with the listing, opens nothing, registers nothing and
  returns \<open>None\<close>.
\<close>

lemma setup_component_missing_listed:
  assumes "config DOMAIN = Some conf" and "descriptor_missing env (conf DEVICE_DESCRIPTOR)"
      and "fs_listdir env id_folder = Some names"
  shows "setup_component env config =
           ([Log ERROR
               (Fmt (''A device_descriptor must be defined. Possible descriptors are %s:''
                       @ [CHR 0x0A] @ ''%s'')
                  [ArgStr id_folder, ArgList names])],
            Inr PyNone)
       \<and> opens (fst (setup_component env config)) = []
       \<and> listeners (fst (setup_component env config)) = []
       \<and> length (error_logs (fst (setup_component env config))) = 1"
  using setup_component_missing[of config conf env] assms by (simp add: report_missing_def)

section \<open>The event filter (C1)\<close>

text \<open>
  For the events that evdev can categorize, the loop filters as specified. Take any of
  the three configured modes \<open>m\<close> (\<open>key_up\<close>, \<open>key_down\<close>, \<open>key_hold\<close>), a loop
  whose \<open>key_value\<close> is \<open>KEY_VALUE m\<close>, and an iteration that reads such an event.
  The iteration does what the same iteration does when no event is waiting, and then,
  exactly when \<open>event.type\<close> is \<open>EV_KEY\<close> and \<open>event.value\<close> is the value of the
  mode, one debug log and one notification, with the name
  \<open>keyboard_remote_command_received\<close> and the payload \<open>{key_code: event.code}\<close>. An
  event of another type or value adds nothing. The values of the modes are 0, 1 and 2.
\<close>

lemma filter_fires_matching_categorized_events:
  assumes "m \<in> {''key_up'', ''key_down'', ''key_hold''}" and "key_value (kr s) = KEY_VALUE m"
      and "reaches_read s e" and "read_one_result e = ReadEvent event"
      and "categorize_result e"
  shows "body s e =
           (case body s (no_event e) of
              (fx, s1, r) \<Rightarrow>
                (fx @ (if ev_type event = EV_KEY \<and> KEY_VALUE m = Some (ev_value event)
                       then [Log DEBUG (Categorized event),
                             Fire KEYBOARD_REMOTE_COMMAND_RECEIVED [KEY_CODE \<mapsto> ev_code event]]
                       else []), s1, r))
       \<and> fired (fst (body s e)) =
           (if ev_type event = EV_KEY \<and> KEY_VALUE m = Some (ev_value event)
            then [(KEYBOARD_REMOTE_COMMAND_RECEIVED, [KEY_CODE \<mapsto> ev_code event])] else [])
       \<and> KEY_VALUE ''key_up'' = Some 0 \<and> KEY_VALUE ''key_down'' = Some 1
       \<and> KEY_VALUE ''key_hold'' = Some 2
       \<and> KEYBOARD_REMOTE_COMMAND_RECEIVED = ''keyboard_remote_command_received''
       \<and> KEY_CODE = ''key_code''"
proof -
  note b = body_event[OF assms(3,4,5,1,2)]
  obtain fx s1 r where n: "body s (no_event e) = (fx, s1, r)"
    by (cases "body s (no_event e)") auto
  have f: "fired fx = []" using body_no_event_fired[of s e] n by simp
  have "fired (fst (body s e)) =
           (if ev_type event = EV_KEY \<and> KEY_VALUE m = Some (ev_value event)
            then [(KEYBOARD_REMOTE_COMMAND_RECEIVED, [KEY_CODE \<mapsto> ev_code event])] else [])"
    using b n f by (simp add: fired_append)
  moreover have "KEY_VALUE ''key_up'' = Some 0 \<and> KEY_VALUE ''key_down'' = Some 1
       \<and> KEY_VALUE ''key_hold'' = Some 2"
    by (simp add: KEY_VALUE_def)
  ultimately show ?thesis
    using b by (simp add: KEYBOARD_REMOTE_COMMAND_RECEIVED_def KEY_CODE_def)
qed

text \<open>
  Claim C1: for every raw event and every mode, the loop emits a notification exactly
  when the event is a key event of the value of the mode, with the name
  \<open>keyboard_remote_command_received\<close> and the payload \<open>{key_code: code}\<close>. The code
  does not do that for every event. Mode \<open>key_up\<close>; the keyboard sends a key event of
  value 0 whose code, 84, evdev's table does not name, and then the key 107. Line 158
  evaluates \<open>categorize(event)\<close> for the debug log before line 159 fires: the
  \<open>KeyError\<close> leaves \<open>run\<close> after the first read, nothing is fired for the event of
  code 84, and the event of code 107 is never read.
\<close>

theorem uncategorized_key_event_kills_run:
  "run (foo_remote 3) True
     [\<lparr>is_set = False, path_exists = True, open_result = None, grab_result = False,
       read_one_result = ReadEvent \<lparr>ev_type = 1, ev_code = 84, ev_value = 0\<rparr>,
       categorize_result = False\<rparr>,
      \<lparr>is_set = False, path_exists = True, open_result = None, grab_result = False,
       read_one_result = ReadEvent \<lparr>ev_type = 1, ev_code = 107, ev_value = 0\<rparr>,
       categorize_result = True\<rparr>]
   = ([Log DEBUG (Fmt ''KeyboardRemote interface started for %s'' [ArgDev 3]), Grab 3,
       ReadOne 3],
      \<lparr>kr = foo_remote 3, keyboard_connected = True\<rparr>, Raised KeyError)
   \<and> fired
       (fst (run (foo_remote 3) True
          [\<lparr>is_set = False, path_exists = True, open_result = None, grab_result = False,
            read_one_result = ReadEvent \<lparr>ev_type = 1, ev_code = 84, ev_value = 0\<rparr>,
            categorize_result = False\<rparr>,
           \<lparr>is_set = False, path_exists = True, open_result = None, grab_result = False,
            read_one_result = ReadEvent \<lparr>ev_type = 1, ev_code = 107, ev_value = 0\<rparr>,
            categorize_result = True\<rparr>])) = []"
  by (simp add: run_def body_def read_and_fire_def accepts_def py_is_def EV_KEY_def
      foo_remote_def)

section \<open>Cancellation (C3)\<close>

text \<open>
  Claim C3. The loop tests \<open>stopped\<close> before every iteration. In whatever state the
  loop is, connected or not, the first test that finds the flag set ends it: the loop
  has then done exactly what it did before that test, so nothing is fired (and nothing
  else is done) once the flag has been seen, and nothing of the script after that test
  happens. The flag set during an iteration is seen at the next test, after the rest of
  that one iteration, which makes at most seven calls.
\<close>

theorem cancellation_ends_loop_at_next_test:
  assumes "is_set e"
  shows "run_loop s (pre @ e # post) =
           (case run_loop s pre of
              (fx, s1, out) \<Rightarrow> (fx, s1, if out = Running then Returned else out))
       \<and> snd (snd (run_loop s (pre @ e # post))) \<noteq> Running
       \<and> fst (run_loop s (pre @ e # post)) = fst (run_loop s pre)
       \<and> (\<forall>s1 e1. length (fst (body s1 e1)) \<le> 7)"
proof -
  obtain fx s1 out where l: "run_loop s pre = (fx, s1, out)" by (cases "run_loop s pre") auto
  show ?thesis using run_loop_stop_here[OF assms, of s pre post] l body_length by simp
qed

text \<open>
  A disconnected loop polls once, then finds the flag set while the keyboard is back and
  a key event is waiting: it returns without reopening, reading or firing.
\<close>

theorem cancellation_ends_loop_at_next_test_witness:
  "run_loop \<lparr>kr = foo_remote 3, keyboard_connected = False\<rparr>
     [\<lparr>is_set = False, path_exists = False, open_result = None, grab_result = False,
       read_one_result = ReadNone,
       categorize_result = True\<rparr>,
      \<lparr>is_set = True, path_exists = True, open_result = Some 4, grab_result = True,
       read_one_result = ReadEvent \<lparr>ev_type = 1, ev_code = 107, ev_value = 0\<rparr>,
       categorize_result = True\<rparr>,
      \<lparr>is_set = True, path_exists = True, open_result = Some 4, grab_result = True,
       read_one_result = ReadEvent \<lparr>ev_type = 1, ev_code = 107, ev_value = 0\<rparr>,
       categorize_result = True\<rparr>]
   = ([], \<lparr>kr = foo_remote 3, keyboard_connected = False\<rparr>, Returned)"
  using cancellation_ends_loop_at_next_test[of
      "\<lparr>is_set = True, path_exists = True, open_result = Some 4, grab_result = True,
        read_one_result = ReadEvent \<lparr>ev_type = 1, ev_code = 107, ev_value = 0\<rparr>,
       categorize_result = True\<rparr>"
      "\<lparr>kr = foo_remote 3, keyboard_connected = False\<rparr>"
      "[\<lparr>is_set = False, path_exists = False, open_result = None, grab_result = False,
         read_one_result = ReadNone,
       categorize_result = True\<rparr>]"
      "[\<lparr>is_set = True, path_exists = True, open_result = Some 4, grab_result = True,
         read_one_result = ReadEvent \<lparr>ev_type = 1, ev_code = 107, ev_value = 0\<rparr>,
       categorize_result = True\<rparr>]"]
  by (simp add: body_def)

section \<open>Read failures (C4)\<close>

text \<open>
  Claim C4. In a connected loop, an iteration whose read raises \<open>IOError\<close> makes the
  read and one debug log, fires nothing, clears \<open>keyboard_connected\<close> and raises
  nothing: the loop goes on, disconnected, with the next iteration.
\<close>

theorem read_failure_disconnects_without_raising:
  assumes "keyboard_connected s" and "read_one_result e = ReadIOError"
  shows "body s e =
           ([ReadOne (dev (kr s)),
             Log DEBUG (Fmt ''KeyboardRemote: keyboard disconnected, %s''
                          [ArgStr (device_descriptor (kr s))])],
            s\<lparr>keyboard_connected := False\<rparr>, None)
       \<and> fired (fst (body s e)) = []
       \<and> (\<not> is_set e \<longrightarrow>
            run_loop s (e # es) =
              (case run_loop (s\<lparr>keyboard_connected := False\<rparr>) es of
                 (fx2, s2, out) \<Rightarrow> (fst (body s e) @ fx2, s2, out))
            \<and> run_loop s [e] = (fst (body s e), s\<lparr>keyboard_connected := False\<rparr>, Running))"
  using assms by (simp add: body_def read_and_fire_def)

text \<open>The keyboard is unplugged: the read raises, the loop is disconnected and goes on.\<close>

theorem read_failure_disconnects_without_raising_witness:
  "run_loop \<lparr>kr = foo_remote 3, keyboard_connected = True\<rparr>
     [\<lparr>is_set = False, path_exists = False, open_result = None, grab_result = False,
       read_one_result = ReadIOError,
       categorize_result = True\<rparr>]
   = ([ReadOne 3,
       Log DEBUG (Fmt ''KeyboardRemote: keyboard disconnected, %s''
                    [ArgStr ''/dev/input/by-id/foo''])],
      \<lparr>kr = foo_remote 3, keyboard_connected = False\<rparr>, Running)"
  using read_failure_disconnects_without_raising[of
      "\<lparr>kr = foo_remote 3, keyboard_connected = True\<rparr>"
      "\<lparr>is_set = False, path_exists = False, open_result = None, grab_result = False,
        read_one_result = ReadIOError,
       categorize_result = True\<rparr>"
      "[]"]
  by (simp add: foo_remote_def)

section \<open>Reconnection (C5)\<close>

text \<open>
  Claim C5. In a disconnected loop, an iteration that finds the descriptor path again
  logs, sleeps one second and then opens the device: one open, after the sleep, and one
  grab of the device opened (none when the open failed). When the open and the grab
  succeed, the loop is connected, holds the new device, and the iteration goes on as an
  iteration of a connected loop does: it reads and filters. While the path is absent,
  the iteration does nothing and changes nothing.
\<close>

theorem reconnect_sleeps_then_acquires_once:
  assumes "\<not> keyboard_connected s"
  shows "(path_exists e \<longrightarrow>
            take 3 (fst (body s e)) =
              [Log DEBUG (Fmt ''KeyboardRemote: keyboard re-connected, %s''
                            [ArgStr (device_descriptor (kr s))]),
               Sleep 1, Open (device_descriptor (kr s))]
          \<and> opens (fst (body s e)) = [device_descriptor (kr s)]
          \<and> grabs (fst (body s e)) = (case open_result e of None \<Rightarrow> [] | Some h \<Rightarrow> [h])
          \<and> (\<forall>h. open_result e = Some h \<and> grab_result e \<longrightarrow>
                body s e =
                  (case body ((set_dev h s)\<lparr>keyboard_connected := True\<rparr>) e of
                     (fx, s2, r) \<Rightarrow>
                       ([Log DEBUG (Fmt ''KeyboardRemote: keyboard re-connected, %s''
                                      [ArgStr (device_descriptor (kr s))]),
                         Sleep 1, Open (device_descriptor (kr s)), Grab h] @ fx, s2, r))))
       \<and> (\<not> path_exists e \<longrightarrow> body s e = ([], s, None))"
proof -
  have o: "read_and_fire s1 e = (fx, s2, r) \<Longrightarrow> opens fx = []" for s1 fx s2 r
    using read_and_fire_opens[of s1 e] by simp
  have g: "read_and_fire s1 e = (fx, s2, r) \<Longrightarrow> grabs fx = []" for s1 fx s2 r
    using read_and_fire_grabs[of s1 e] by simp
  show ?thesis
    using assms
    by (auto simp: body_def reconnect_def Let_def opens_append grabs_append o g
        split: prod.splits option.splits)
qed

text \<open>
  The keyboard is back, the reopen gives device 4, the grab succeeds and a key event of
  the configured value is waiting: the iteration ends connected, on device 4, and has
  fired the event.
\<close>

theorem reconnect_sleeps_then_acquires_once_witness:
  "body \<lparr>kr = foo_remote 3, keyboard_connected = False\<rparr>
     \<lparr>is_set = False, path_exists = True, open_result = Some 4, grab_result = True,
      read_one_result = ReadEvent \<lparr>ev_type = 1, ev_code = 107, ev_value = 0\<rparr>,
       categorize_result = True\<rparr>
   = ([Log DEBUG (Fmt ''KeyboardRemote: keyboard re-connected, %s''
                    [ArgStr ''/dev/input/by-id/foo'']),
       Sleep 1, Open ''/dev/input/by-id/foo'', Grab 4, ReadOne 4,
       Log DEBUG (Categorized \<lparr>ev_type = 1, ev_code = 107, ev_value = 0\<rparr>),
       Fire ''keyboard_remote_command_received'' [''key_code'' \<mapsto> 107]],
      \<lparr>kr = foo_remote 4, keyboard_connected = True\<rparr>, None)"
  using reconnect_sleeps_then_acquires_once[of
      "\<lparr>kr = foo_remote 3, keyboard_connected = False\<rparr>"
      "\<lparr>is_set = False, path_exists = True, open_result = Some 4, grab_result = True,
        read_one_result = ReadEvent \<lparr>ev_type = 1, ev_code = 107, ev_value = 0\<rparr>,
       categorize_result = True\<rparr>"]
  by (simp add: body_def read_and_fire_def set_dev_def accepts_def py_is_def EV_KEY_def
      foo_remote_def KEYBOARD_REMOTE_COMMAND_RECEIVED_def KEY_CODE_def)

section \<open>A failed reconnection (C2)\<close>

text \<open>
  Claim C2 says that a reopen or grab that fails during reconnection leaves the loop
  running, disconnected, to try again. The loop has no \<open>try\<close> around the two calls:
  here the keyboard is back, the reopen raises, and the loop ends with that exception
  after one attempt, although \<open>stopped\<close> is not set at the next test either.
\<close>

theorem failed_reconnect_retried_counterexample:
  "run_loop \<lparr>kr = foo_remote 3, keyboard_connected = False\<rparr>
     [\<lparr>is_set = False, path_exists = True, open_result = None, grab_result = False,
       read_one_result = ReadNone,
       categorize_result = True\<rparr>,
      \<lparr>is_set = False, path_exists = True, open_result = Some 4, grab_result = True,
       read_one_result = ReadNone,
       categorize_result = True\<rparr>]
   = ([Log DEBUG (Fmt ''KeyboardRemote: keyboard re-connected, %s''
                    [ArgStr ''/dev/input/by-id/foo'']),
       Sleep 1, Open ''/dev/input/by-id/foo''],
      \<lparr>kr = foo_remote 3, keyboard_connected = False\<rparr>, Raised OpenError)"
  by (simp add: body_def reconnect_def Let_def foo_remote_def)

text \<open>
  Claim C2, amended. In a disconnected loop, an iteration that finds the descriptor path
  again and whose reopen or grab fails ends the loop: the exception leaves the loop to
  its caller after the log, the sleep of one second and the one attempt; nothing is
  fired, the rest of the script is not run (no retry), and \<open>keyboard_connected\<close> is
  still false.
\<close>

theorem failed_reconnect_raises_out_of_loop:
  assumes "\<not> keyboard_connected s" and "\<not> is_set e" and "path_exists e"
      and "open_result e = None \<or> \<not> grab_result e"
  shows "run_loop s (e # es) =
           (case open_result e of
              None \<Rightarrow>
                ([Log DEBUG (Fmt ''KeyboardRemote: keyboard re-connected, %s''
                               [ArgStr (device_descriptor (kr s))]),
                  Sleep 1, Open (device_descriptor (kr s))], s, Raised OpenError)
            | Some h \<Rightarrow>
                ([Log DEBUG (Fmt ''KeyboardRemote: keyboard re-connected, %s''
                               [ArgStr (device_descriptor (kr s))]),
                  Sleep 1, Open (device_descriptor (kr s)), Grab h], set_dev h s,
                 Raised GrabError))
       \<and> fired (fst (run_loop s (e # es))) = []
       \<and> opens (fst (run_loop s (e # es))) = [device_descriptor (kr s)]
       \<and> \<not> keyboard_connected (fst (snd (run_loop s (e # es))))"
  using assms
  by (auto simp: body_def reconnect_def Let_def set_dev_def split: option.splits)

text \<open>
  The reopen gives device 4 and the grab of it is refused; the keyboard would be there
  at the next iteration.
\<close>

theorem failed_reconnect_raises_out_of_loop_witness:
  "run_loop \<lparr>kr = foo_remote 3, keyboard_connected = False\<rparr>
     [\<lparr>is_set = False, path_exists = True, open_result = Some 4, grab_result = False,
       read_one_result = ReadNone,
       categorize_result = True\<rparr>,
      \<lparr>is_set = False, path_exists = True, open_result = Some 4, grab_result = True,
       read_one_result = ReadNone,
       categorize_result = True\<rparr>]
   = ([Log DEBUG (Fmt ''KeyboardRemote: keyboard re-connected, %s''
                    [ArgStr ''/dev/input/by-id/foo'']),
       Sleep 1, Open ''/dev/input/by-id/foo'', Grab 4],
      \<lparr>kr = foo_remote 4, keyboard_connected = False\<rparr>, Raised GrabError)"
  using failed_reconnect_raises_out_of_loop[of
      "\<lparr>kr = foo_remote 3, keyboard_connected = False\<rparr>"
      "\<lparr>is_set = False, path_exists = True, open_result = Some 4, grab_result = False,
        read_one_result = ReadNone,
       categorize_result = True\<rparr>"
      "[\<lparr>is_set = False, path_exists = True, open_result = Some 4, grab_result = True,
         read_one_result = ReadNone,
       categorize_result = True\<rparr>]"]
  by (simp add: set_dev_def foo_remote_def)

section \<open>The device at exit (C6)\<close>

text \<open>
  Claim C6 says that the device still held is released before \<open>run\<close> returns on
  cancellation. \<open>run\<close> grabs device 3, finds \<open>stopped\<close> set at the first test and
  returns: it has neither closed nor ungrabbed the device, and no rebinding has dropped
  it.
\<close>

theorem handle_released_on_cancel_counterexample:
  "run (foo_remote 3) True
     [\<lparr>is_set = True, path_exists = True, open_result = None, grab_result = False,
       read_one_result = ReadNone,
       categorize_result = True\<rparr>]
     = ([Log DEBUG (Fmt ''KeyboardRemote interface started for %s'' [ArgDev 3]), Grab 3],
        \<lparr>kr = foo_remote 3, keyboard_connected = True\<rparr>, Returned)
   \<and> releases
       (fst (run (foo_remote 3) True
               [\<lparr>is_set = True, path_exists = True, open_result = None, grab_result = False,
                 read_one_result = ReadNone,
                 categorize_result = True\<rparr>])) = []
   \<and> run_closed (foo_remote 3) True
       [\<lparr>is_set = True, path_exists = True, open_result = None, grab_result = False,
         read_one_result = ReadNone,
         categorize_result = True\<rparr>] = []"
  by (simp add: run_def run_closed_def foo_remote_def)

text \<open>
  Claim C6, amended: for every run that exits because cancellation was observed, the
  device handle still held at that point is not released before the loop returns, in
  both states. Such a run had its first grab accepted; the device it holds at exit is
  the last one it grabbed; the module has made no call that closes or ungrabs a device;
  and the devices closed during the run are exactly those held before the last, each
  dropped by the rebinding of a reconnection. So, every \<open>InputDevice\<close> being a new
  object (the devices grabbed are distinct), the device held at exit is not among the
  devices closed.
\<close>

theorem cancelled_run_keeps_held_device:
  assumes "snd (snd (run self grab_ok es)) = Returned"
      and "distinct (grabs (fst (run self grab_ok es)))"
  shows "grab_ok
       \<and> dev (kr (fst (snd (run self grab_ok es)))) = last (grabs (fst (run self grab_ok es)))
       \<and> releases (fst (run self grab_ok es)) = []
       \<and> run_closed self grab_ok es = butlast (grabs (fst (run self grab_ok es)))
       \<and> dev (kr (fst (snd (run self grab_ok es)))) \<notin> set (run_closed self grab_ok es)"
proof -
  have g: grab_ok using assms(1) by (auto simp: run_def Let_def split: if_splits)
  obtain fx s2 out where l: "run_loop \<lparr>kr = self, keyboard_connected = True\<rparr> es = (fx, s2, out)"
    by (cases "run_loop \<lparr>kr = self, keyboard_connected = True\<rparr> es") auto
  have r: "releases (fst (run self grab_ok es)) = []"
    using run_loop_releases[of "\<lparr>kr = self, keyboard_connected = True\<rparr>" es] l g
    by (simp add: run_def)
  have ne: "grabs (fst (run self grab_ok es)) \<noteq> []" using g l by (simp add: run_def)
  note h = run_held[of self grab_ok es]
  have "last (grabs (fst (run self grab_ok es)))
          \<notin> set (butlast (grabs (fst (run self grab_ok es))))"
    by (rule last_notin_butlast[OF assms(2) ne])
  then show ?thesis using g r h by simp
qed

text \<open>
  A run loses the keyboard, reopens it as device 4, loses it again and sees \<open>stopped\<close>
  set while disconnected: it returns holding device 4, which is not released; device 3
  was closed when the reconnection replaced it.
\<close>

theorem cancelled_run_keeps_held_device_witness:
  "run (foo_remote 3) True
     [\<lparr>is_set = False, path_exists = False, open_result = None, grab_result = False,
       read_one_result = ReadIOError,
       categorize_result = True\<rparr>,
      \<lparr>is_set = False, path_exists = True, open_result = Some 4, grab_result = True,
       read_one_result = ReadIOError,
       categorize_result = True\<rparr>,
      \<lparr>is_set = True, path_exists = False, open_result = None, grab_result = False,
       read_one_result = ReadNone,
       categorize_result = True\<rparr>]
   = ([Log DEBUG (Fmt ''KeyboardRemote interface started for %s'' [ArgDev 3]), Grab 3,
       ReadOne 3,
       Log DEBUG (Fmt ''KeyboardRemote: keyboard disconnected, %s''
                    [ArgStr ''/dev/input/by-id/foo'']),
       Log DEBUG (Fmt ''KeyboardRemote: keyboard re-connected, %s''
                    [ArgStr ''/dev/input/by-id/foo'']),
       Sleep 1, Open ''/dev/input/by-id/foo'', Grab 4, ReadOne 4,
       Log DEBUG (Fmt ''KeyboardRemote: keyboard disconnected, %s''
                    [ArgStr ''/dev/input/by-id/foo''])],
      \<lparr>kr = foo_remote 4, keyboard_connected = False\<rparr>, Returned)
   \<and> run_closed (foo_remote 3) True
       [\<lparr>is_set = False, path_exists = False, open_result = None, grab_result = False,
         read_one_result = ReadIOError,
         categorize_result = True\<rparr>,
        \<lparr>is_set = False, path_exists = True, open_result = Some 4, grab_result = True,
         read_one_result = ReadIOError,
         categorize_result = True\<rparr>,
        \<lparr>is_set = True, path_exists = False, open_result = None, grab_result = False,
         read_one_result = ReadNone,
         categorize_result = True\<rparr>] = [3]"
  using cancelled_run_keeps_held_device[of "foo_remote 3" True
      "[\<lparr>is_set = False, path_exists = False, open_result = None, grab_result = False,
         read_one_result = ReadIOError,
         categorize_result = True\<rparr>,
        \<lparr>is_set = False, path_exists = True, open_result = Some 4, grab_result = True,
         read_one_result = ReadIOError,
         categorize_result = True\<rparr>,
        \<lparr>is_set = True, path_exists = False, open_result = None, grab_result = False,
         read_one_result = ReadNone,
         categorize_result = True\<rparr>]"]
  by (simp add: run_def run_closed_def body_def read_and_fire_def reconnect_def Let_def
      set_dev_def rebinding_drops_def foo_remote_def)

section \<open>Acquisition at startup (C7)\<close>

text \<open>
  Claim C7 says that the open and the grab are both made when the object is constructed,
  and that a rejection of either aborts the construction. The constructor only opens.
  Here the descriptor exists and the open gives device 3, but the grab will be refused:
  \<open>setup\<close> constructs the object, registers both listeners and returns \<open>True\<close>
  without any grab; the refusal comes later, out of \<open>run\<close>.
\<close>

theorem grab_rejected_at_construction_counterexample:
  "setup_component (machine [''/dev/input/by-id/foo''] (Some [''foo'']) (Some 3)) foo_config
   = ([Open ''/dev/input/by-id/foo'',
       ListenOnce EVENT_HOMEASSISTANT_START (start_keyboard_remote (foo_remote 3)),
       ListenOnce EVENT_HOMEASSISTANT_STOP (stop_keyboard_remote (foo_remote 3))],
      Inr (PyBool True))
   \<and> run (foo_remote 3) False []
   = ([Log DEBUG (Fmt ''KeyboardRemote interface started for %s'' [ArgDev 3]), Grab 3],
      \<lparr>kr = foo_remote 3, keyboard_connected = False\<rparr>, Raised GrabError)"
  by (simp add: setup_component_def DOMAIN_def DEVICE_DESCRIPTOR_def TYPE_conf_def
      KeyboardRemote_init_def KEY_VALUE_def run_def Let_def foo_remote_def foo_config_def
      machine_def)

text \<open>
  Claim C7, amended. A rejected open at startup is fatal: it leaves the constructor as an
  exception, and \<open>setup\<close> with it, after the one open and before any listener is
  registered. The constructor and \<open>setup\<close> never grab. The grab is the first call of
  \<open>run\<close> after its log line: a rejected grab leaves \<open>run\<close> as an exception before
  the loop starts, and does not abort the construction.
\<close>

theorem startup_open_fatal_grab_deferred_to_run:
  "(dev_open env d = None \<longrightarrow> KeyboardRemote_init env d kv = ([Open d], Inl OpenError))
 \<and> (config DOMAIN = Some conf \<and> conf DEVICE_DESCRIPTOR = Some d
      \<and> \<not> descriptor_missing env (Some d) \<and> dev_open env d = None \<longrightarrow>
      setup_component env config = ([Open d], Inl OpenError))
 \<and> grabs (fst (KeyboardRemote_init env d kv)) = []
 \<and> grabs (fst (setup_component env config)) = []
 \<and> run self False es =
      ([Log DEBUG (Fmt ''KeyboardRemote interface started for %s'' [ArgDev (dev self)]),
        Grab (dev self)],
       \<lparr>kr = self, keyboard_connected = False\<rparr>, Raised GrabError)
 \<and> take 2 (fst (run self True es)) =
      [Log DEBUG (Fmt ''KeyboardRemote interface started for %s'' [ArgDev (dev self)]),
       Grab (dev self)]"
proof -
  have a: "config DOMAIN = Some conf \<and> conf DEVICE_DESCRIPTOR = Some d
      \<and> \<not> descriptor_missing env (Some d) \<and> dev_open env d = None \<longrightarrow>
      setup_component env config = ([Open d], Inl OpenError)"
    using setup_component_present[of config conf d env] by auto
  have b: "take 2 (fst (run self True es)) =
      [Log DEBUG (Fmt ''KeyboardRemote interface started for %s'' [ArgDev (dev self)]),
       Grab (dev self)]"
    by (simp add: run_def split: prod.splits)
  show ?thesis
    using a b by (simp add: KeyboardRemote_init_def run_def setup_component_grabs)
qed

text \<open>The descriptor exists and the open is refused.\<close>

theorem startup_open_fatal_grab_deferred_to_run_witness:
  "setup_component (machine [''/dev/input/by-id/foo''] (Some [''foo'']) None) foo_config
   = ([Open ''/dev/input/by-id/foo''], Inl OpenError)"
  using startup_open_fatal_grab_deferred_to_run[of
      "machine [''/dev/input/by-id/foo''] (Some [''foo'']) None"
      "''/dev/input/by-id/foo''" _
      foo_config
      "[''device_descriptor'' \<mapsto> ''/dev/input/by-id/foo'', ''type'' \<mapsto> ''key_up'']"]
  by (simp add: DOMAIN_def DEVICE_DESCRIPTOR_def descriptor_missing_def foo_config_def
      machine_def)

section \<open>A missing descriptor (C9)\<close>

text \<open>
  Claim C9. \<open>setup\<close> with a descriptor that does not exist is to log one error that
  lists the candidates of \<open>/dev/input/by-id/\<close>. On a machine where that folder does
  not exist either (\<open>os.listdir\<close> raises), \<open>setup\<close> logs nothing: the exception of
  the listing leaves it. (\<open>setup_component_missing_listed\<close> is the case of a folder
  that can be listed.)
\<close>

theorem missing_descriptor_unlistable_folder_raises:
  "setup_component (machine [] None None) foo_config = ([], Inl ListdirError)"
  by (simp add: setup_component_def DOMAIN_def DEVICE_DESCRIPTOR_def report_missing_def
      foo_config_def machine_def)

section \<open>What \<open>setup\<close> returns (C10)\<close>

text \<open>
  What \<open>setup\<close> returns, for a configuration that has the domain: \<open>True\<close> when the
  descriptor exists and the device opens; with a missing descriptor, \<open>None\<close> whenever
  the folder of candidates can be listed for the log, and never another value. \<open>None\<close>
  is falsy and is not \<open>False\<close>.
\<close>

lemma setup_return_values:
  assumes "config DOMAIN = Some conf"
  shows "(\<forall>d. conf DEVICE_DESCRIPTOR = Some d \<and> \<not> descriptor_missing env (Some d)
              \<and> dev_open env d \<noteq> None \<longrightarrow>
            snd (setup_component env config) = Inr (PyBool True))
       \<and> (descriptor_missing env (conf DEVICE_DESCRIPTOR) \<and> fs_listdir env id_folder \<noteq> None \<longrightarrow>
          snd (setup_component env config) = Inr PyNone)
       \<and> (descriptor_missing env (conf DEVICE_DESCRIPTOR) \<longrightarrow>
          (\<forall>v. snd (setup_component env config) = Inr v \<longrightarrow> v = PyNone))
       \<and> \<not> truthy PyNone \<and> PyNone \<noteq> PyBool False \<and> truthy (PyBool True)"
proof -
  have p: "conf DEVICE_DESCRIPTOR = Some d \<and> \<not> descriptor_missing env (Some d)
              \<and> dev_open env d \<noteq> None \<longrightarrow>
            snd (setup_component env config) = Inr (PyBool True)" for d
    using setup_component_present[of config conf d env] assms by auto
  have m: "descriptor_missing env (conf DEVICE_DESCRIPTOR) \<Longrightarrow>
           setup_component env config = report_missing env"
    using setup_component_missing[of config conf env] assms by simp
  show ?thesis using p m by (auto simp: report_missing_def split: option.splits)
qed

text \<open>
  Claim C10: \<open>setup\<close> returns \<open>True\<close> when the descriptor exists and the object is
  constructed, and returns \<open>None\<close> on the path of a missing descriptor. On that path
  the code does not always return. The machine has the device nodes
  \<open>/dev/input/event3\<close> and no folder \<open>/dev/input/by-id/\<close>; the configured
  descriptor \<open>/dev/input/by-id/foo\<close> does not exist. \<open>os.listdir\<close> raises while the
  arguments of the error log are evaluated: \<open>setup\<close> returns nothing, neither
  \<open>None\<close> nor another value; the exception leaves it.
\<close>

theorem missing_descriptor_setup_raises_instead_of_returning:
  "snd (setup_component (machine [''/dev/input/event3''] None (Some 3)) foo_config)
     = Inl ListdirError
   \<and> snd (setup_component (machine [''/dev/input/event3''] None (Some 3)) foo_config)
     \<noteq> Inr PyNone"
  by (simp add: setup_component_def DOMAIN_def DEVICE_DESCRIPTOR_def report_missing_def
      foo_config_def machine_def)

end
